theory Spec2Isabelle
  imports Complex_Main "HOL-Library.Sublist" "HOL-Library.Char_ord" "HOL-Library.List_Lexorder"
    "HOL-Library.Log_Nat"
begin

section \<open>The PM2.5 stream consumer of \<^verbatim>\<open>step_3_consumer_app.ipynb\<close>\<close>

text \<open>
  The notebook polls a Kafka topic, decodes every message into a row of a table, appends
  the row, and prints a notification computed from a rolling mean per location; afterwards
  it derives the green and the gray markers of a map from the table.

  Conventions of the embedding.
  \<^item> A Python float is a real number, an infinity or NaN (\<open>pyfloat\<close>). The result of an
    operation on floats is rounded to the nearest IEEE double, ties to even, and overflows
    to an infinity (\<open>double\<close>). The sign of zero is not modelled.
  \<^item> A decoded JSON value is a \<open>json\<close>. JSON numbers are floats (Python's \<^verbatim>\<open>1 == 1.0\<close>),
    and \<^verbatim>\<open>true\<close>/\<^verbatim>\<open>false\<close> are the numbers 1 and 0 (Python's \<^verbatim>\<open>bool\<close> is an \<^verbatim>\<open>int\<close>: it
    compares and hashes as one). An object is the list of its entries in iteration order,
    as the \<^verbatim>\<open>dict\<close> that \<^verbatim>\<open>json.loads\<close> returns keeps them.
  \<^item> The builtins \<^verbatim>\<open>json.loads\<close> and \<^verbatim>\<open>float\<close> are parameters (\<open>loads\<close>, \<open>float\<close>) of the
    functions that call them; \<open>None\<close> is the exception they raise on text they reject.
  \<^item> An exception is a value of \<open>error\<close>.
\<close>

subsection \<open>Values\<close>

datatype pyfloat = Fin real | PInf | NInf | NaN

datatype json =
    JNull
  | JNum pyfloat
  | JStr string
  | JArr "json list"
  | JObj "(string \<times> json) list"

datatype error =
    JSONDecodeError
  | AttributeError
  | IndexError
  | KeyError
  | TypeError
  | ValueError
  | KafkaException

text \<open>
  The dictionary \<^verbatim>\<open>stream\<close> built for every message, and a row of the table \<^verbatim>\<open>df\<close>
  (columns \<^verbatim>\<open>lat\<close>, \<^verbatim>\<open>lon\<close>, \<^verbatim>\<open>value\<close>, \<^verbatim>\<open>day\<close>, \<^verbatim>\<open>boxId\<close>). The column \<^verbatim>\<open>value\<close> is the
  field \<open>value'\<close>.
\<close>

record stream =
  lat :: json
  lon :: json
  day :: json
  value' :: pyfloat
  boxId :: json

subsection \<open>Decoding a message\<close>

text \<open>
  \<^verbatim>\<open>input[key][i]\<close> for a literal index \<open>i\<close>: a list gives its element, a string its
  character as a string of length one, both raise \<^verbatim>\<open>IndexError\<close> when too short; a
  \<^verbatim>\<open>dict\<close> has string keys only, so the integer key raises \<^verbatim>\<open>KeyError\<close>; numbers and
  \<^verbatim>\<open>None\<close> are not subscriptable.
\<close>

fun subscript :: "json \<Rightarrow> nat \<Rightarrow> error + json" where
  "subscript (JArr xs) i = (if i < length xs then Inr (xs ! i) else Inl IndexError)"
| "subscript (JStr s) i = (if i < length s then Inr (JStr [s ! i]) else Inl IndexError)"
| "subscript (JObj kvs) i = Inl KeyError"
| "subscript (JNum x) i = Inl TypeError"
| "subscript JNull i = Inl TypeError"

text \<open>
  \<^verbatim>\<open>input.keys()\<close>: only a \<^verbatim>\<open>dict\<close> has the method.
\<close>

fun keys :: "json \<Rightarrow> error + string list" where
  "keys (JObj kvs) = Inr (map fst kvs)"
| "keys _ = Inl AttributeError"

text \<open>
  \<^verbatim>\<open>input[key]\<close> on the decoded object.
\<close>

fun getitem :: "json \<Rightarrow> string \<Rightarrow> error + json" where
  "getitem (JObj kvs) k = (case map_of kvs k of None \<Rightarrow> Inl KeyError | Some v \<Rightarrow> Inr v)"
| "getitem _ k = Inl TypeError"

text \<open>
  Sequencing of computations that may raise.
\<close>

definition bind :: "error + 'a \<Rightarrow> ('a \<Rightarrow> error + 'b) \<Rightarrow> error + 'b" where
  "bind m f = (case m of Inl e \<Rightarrow> Inl e | Inr x \<Rightarrow> f x)"

text \<open>
  The lines from \<^verbatim>\<open>key = list(input.keys())[0]\<close> to the end of the dictionary display
  \<^verbatim>\<open>stream = {...}\<close>. The entries of the display are evaluated in the order written:
  \<^verbatim>\<open>lat\<close>, \<^verbatim>\<open>lon\<close>, \<^verbatim>\<open>day\<close>, \<^verbatim>\<open>value\<close>, \<^verbatim>\<open>boxId\<close>, and the first that raises decides
  the exception.
\<close>

definition parse :: "(string \<Rightarrow> pyfloat option) \<Rightarrow> json \<Rightarrow> error + stream" where
  "parse float input =
     bind (keys input) (\<lambda>ks.
       case ks of
         [] \<Rightarrow> Inl IndexError
       | key # _ \<Rightarrow>
           bind (bind (getitem input key) (\<lambda>v. subscript v 0)) (\<lambda>la.
           bind (bind (getitem input key) (\<lambda>v. subscript v 1)) (\<lambda>lo.
           bind (bind (getitem input key) (\<lambda>v. subscript v 2)) (\<lambda>d.
           bind (case float key of None \<Rightarrow> Inl ValueError | Some x \<Rightarrow> Inr x) (\<lambda>x.
           bind (bind (getitem input key) (\<lambda>v. subscript v 3)) (\<lambda>b.
             Inr \<lparr>lat = la, lon = lo, day = d, value' = x, boxId = b\<rparr>))))))"

text \<open>
  \<^verbatim>\<open>json.loads(msg.value())\<close> followed by the construction of \<^verbatim>\<open>stream\<close>.
\<close>

definition decode ::
  "(string \<Rightarrow> json option) \<Rightarrow> (string \<Rightarrow> pyfloat option) \<Rightarrow> string \<Rightarrow> error + stream" where
  "decode loads float v =
     (case loads v of None \<Rightarrow> Inl JSONDecodeError | Some input \<Rightarrow> parse float input)"

subsection \<open>Float arithmetic\<close>

text \<open>
  Rounding to the nearest integer, ties to even. The exponent \<open>e\<close> of a real \<open>x\<close> that is
  not zero: \<open>2 ^ e \<le> \<bar>x\<bar> < 2 ^ (e + 1)\<close>. The double nearest to a real: 53 significant bits,
  the least unit \<open>2 ^ (- 1074)\<close>, an infinity when the rounded value reaches \<open>2 ^ 1024\<close>, that
  is when its exponent is 1024 or more.
\<close>

definition round_even :: "real \<Rightarrow> int" where
  "round_even x =
     (let f = \<lfloor>x\<rfloor>; d = x - of_int f
      in if d < 1 / 2 then f else if 1 / 2 < d then f + 1 else if even f then f else f + 1)"

definition exponent :: "real \<Rightarrow> int" where
  "exponent x =
     (if 1 \<le> \<bar>x\<bar> then bitlen \<lfloor>\<bar>x\<bar>\<rfloor> - 1 else - bitlen (\<lceil>1 / \<bar>x\<bar>\<rceil> - 1))"

definition double :: "real \<Rightarrow> pyfloat" where
  "double x =
     (if x = 0 then Fin 0
      else let q = max (exponent x - 52) (- 1074);
               y = of_int (round_even (x / 2 powi q)) * 2 powi q
           in if y \<noteq> 0 \<and> 1024 \<le> exponent y then (if 0 < x then PInf else NInf)
              else Fin y)"

text \<open>
  The operations of C on \<^verbatim>\<open>float64_t\<close> that the rolling mean uses: \<^verbatim>\<open>a + b\<close>, \<^verbatim>\<open>-a\<close>,
  \<^verbatim>\<open>a - b\<close>, the division of a sum by a positive count, \<^verbatim>\<open>a == b\<close>, the sign bit and the
  comparisons with zero.
\<close>

fun fadd :: "pyfloat \<Rightarrow> pyfloat \<Rightarrow> pyfloat" where
  "fadd (Fin x) (Fin y) = double (x + y)"
| "fadd NaN y = NaN"
| "fadd x NaN = NaN"
| "fadd PInf NInf = NaN"
| "fadd NInf PInf = NaN"
| "fadd PInf y = PInf"
| "fadd x PInf = PInf"
| "fadd NInf y = NInf"
| "fadd x NInf = NInf"

fun fneg :: "pyfloat \<Rightarrow> pyfloat" where
  "fneg (Fin x) = Fin (- x)"
| "fneg PInf = NInf"
| "fneg NInf = PInf"
| "fneg NaN = NaN"

definition fsub :: "pyfloat \<Rightarrow> pyfloat \<Rightarrow> pyfloat" where
  "fsub a b = fadd a (fneg b)"

fun fdiv :: "pyfloat \<Rightarrow> int \<Rightarrow> pyfloat" where
  "fdiv (Fin x) n = double (x / of_int n)"
| "fdiv x n = x"

definition feq :: "pyfloat \<Rightarrow> pyfloat \<Rightarrow> bool" where
  "feq a b = (a \<noteq> NaN \<and> b \<noteq> NaN \<and> a = b)"

fun signbit :: "pyfloat \<Rightarrow> bool" where
  "signbit (Fin x) = (x < 0)"
| "signbit NInf = True"
| "signbit x = False"

fun negative :: "pyfloat \<Rightarrow> bool" where
  "negative (Fin x) = (x < 0)"
| "negative NInf = True"
| "negative x = False"

fun positive :: "pyfloat \<Rightarrow> bool" where
  "positive (Fin x) = (0 < x)"
| "positive PInf = True"
| "positive x = False"

subsection \<open>The rolling mean per location\<close>

text \<open>
  \<^verbatim>\<open>rolling(n).mean()\<close> on a column, as pandas 1.5 computes it (\<^verbatim>\<open>roll_mean\<close> of
  \<^verbatim>\<open>aggregations.pyx\<close>). pandas does not sum every window anew: it carries one sum along
  the column, to which it adds the value that enters the window and from which it takes
  the value that leaves it, each with the Kahan compensation of its own, and it counts
  the values in the window that are not NaN (\<^verbatim>\<open>nobs\<close>), the negative ones (\<^verbatim>\<open>neg_ct\<close>) and
  the equal values added in a row.
\<close>

record mean_state =
  nobs :: int
  sum_x :: pyfloat
  neg_ct :: int
  compensation_add :: pyfloat
  compensation_remove :: pyfloat
  num_consecutive_same_value :: int
  prev_value :: pyfloat

definition add_mean :: "pyfloat \<Rightarrow> mean_state \<Rightarrow> mean_state" where
  "add_mean val st =
     (if val \<noteq> NaN then
        let y = fsub val (compensation_add st);
            t = fadd (sum_x st) y
        in st\<lparr>nobs := nobs st + 1,
              compensation_add := fsub (fsub t (sum_x st)) y,
              sum_x := t,
              neg_ct := (if signbit val then neg_ct st + 1 else neg_ct st),
              num_consecutive_same_value :=
                (if feq val (prev_value st) then num_consecutive_same_value st + 1 else 1),
              prev_value := val\<rparr>
      else st)"

definition remove_mean :: "pyfloat \<Rightarrow> mean_state \<Rightarrow> mean_state" where
  "remove_mean val st =
     (if val \<noteq> NaN then
        let y = fsub (fneg val) (compensation_remove st);
            t = fadd (sum_x st) y
        in st\<lparr>nobs := nobs st - 1,
              compensation_remove := fsub (fsub t (sum_x st)) y,
              sum_x := t,
              neg_ct := (if signbit val then neg_ct st - 1 else neg_ct st)\<rparr>
      else st)"

definition calc_mean :: "nat \<Rightarrow> mean_state \<Rightarrow> pyfloat" where
  "calc_mean minp st =
     (if int minp \<le> nobs st \<and> 0 < nobs st then
        let result = fdiv (sum_x st) (nobs st)
        in if nobs st \<le> num_consecutive_same_value st then prev_value st
           else if neg_ct st = 0 \<and> negative result then Fin 0
           else if neg_ct st = nobs st \<and> positive result then Fin 0
           else result
      else NaN)"

text \<open>
  The window that ends at position \<open>i\<close> starts at \<open>i + 1 - n\<close>, or at 0: from position \<open>n\<close>
  on, the value at \<open>i - n\<close> leaves the window, then the value at \<open>i\<close> enters it. The first
  window is set up from a state of zeros.
\<close>

definition zero_state :: "pyfloat list \<Rightarrow> mean_state" where
  "zero_state values =
     \<lparr>nobs = 0, sum_x = Fin 0, neg_ct = 0, compensation_add = Fin 0,
      compensation_remove = Fin 0, num_consecutive_same_value = 0,
      prev_value = (case values of [] \<Rightarrow> NaN | v # vs \<Rightarrow> v)\<rparr>"

definition advance :: "nat \<Rightarrow> pyfloat list \<Rightarrow> mean_state \<Rightarrow> nat \<Rightarrow> mean_state" where
  "advance n values st i =
     add_mean (values ! i) (if n \<le> i then remove_mean (values ! (i - n)) st else st)"

fun roll :: "nat \<Rightarrow> pyfloat list \<Rightarrow> mean_state \<Rightarrow> nat list \<Rightarrow> pyfloat list" where
  "roll n values st [] = []"
| "roll n values st (i # rest) =
     (let st' = advance n values st i in calc_mean n st' # roll n values st' rest)"

definition roll_mean :: "nat \<Rightarrow> pyfloat list \<Rightarrow> pyfloat list" where
  "roll_mean n values = roll n values (zero_state values) [0..<length values]"

text \<open>
  Before it calls \<^verbatim>\<open>roll_mean\<close>, pandas replaces the infinite entries of the column by
  NaN. The default \<^verbatim>\<open>min_periods\<close> is the window size \<open>n\<close>.
\<close>

fun prep_value :: "pyfloat \<Rightarrow> pyfloat" where
  "prep_value (Fin x) = Fin x"
| "prep_value x = NaN"

definition rolling_mean :: "nat \<Rightarrow> pyfloat list \<Rightarrow> pyfloat list" where
  "rolling_mean n xs = roll_mean n (map prep_value xs)"

text \<open>
  Missing values of pandas (\<^verbatim>\<open>None\<close> and NaN), and the cells that cannot be hashed
  (lists and dictionaries), on which \<^verbatim>\<open>groupby\<close> raises \<^verbatim>\<open>TypeError\<close>. A row has a
  hashable key when its \<^verbatim>\<open>lat\<close> and its \<^verbatim>\<open>lon\<close> can be hashed.
\<close>

fun isna :: "json \<Rightarrow> bool" where
  "isna JNull = True"
| "isna (JNum NaN) = True"
| "isna _ = False"

fun hashable :: "json \<Rightarrow> bool" where
  "hashable (JArr xs) = False"
| "hashable (JObj kvs) = False"
| "hashable _ = True"

definition hashable_key :: "stream \<Rightarrow> bool" where
  "hashable_key r = (hashable (lat r) \<and> hashable (lon r))"

text \<open>
  The elementwise \<^verbatim>\<open>==\<close> of a column with a scalar: a missing value equals nothing.
\<close>

definition eq :: "json \<Rightarrow> json \<Rightarrow> bool" where
  "eq a b = (\<not> isna a \<and> \<not> isna b \<and> a = b)"

text \<open>
  \<^verbatim>\<open>df.groupby(['lat','lon']).rolling(3)['value'].mean().reset_index()\<close>. A row of the
  result is (\<^verbatim>\<open>lat\<close>, \<^verbatim>\<open>lon\<close>, \<^verbatim>\<open>level_2\<close>, \<^verbatim>\<open>value\<close>), \<^verbatim>\<open>level_2\<close> being the position of the
  reading in \<open>df\<close>. Rows with a missing \<^verbatim>\<open>lat\<close> or \<^verbatim>\<open>lon\<close> belong to no group. Each group
  keeps the order of \<open>df\<close>. pandas lists the groups sorted by key, here they come in the
  order of \<open>remdups\<close>: the notebook reads the result through a filter on \<^verbatim>\<open>lat\<close> and \<^verbatim>\<open>lon\<close>,
  which keeps the rows of one group, so the order of the groups does not enter it.
\<close>

type_synonym rolling_row = "json \<times> json \<times> nat \<times> pyfloat"

definition group_keys :: "stream list \<Rightarrow> (json \<times> json) list" where
  "group_keys df =
     remdups (map (\<lambda>r. (lat r, lon r)) (filter (\<lambda>r. \<not> isna (lat r) \<and> \<not> isna (lon r)) df))"

definition group_rolling :: "stream list \<Rightarrow> json \<times> json \<Rightarrow> rolling_row list" where
  "group_rolling df k =
     (let g = filter (\<lambda>(i, r). (lat r, lon r) = k) (enumerate 0 df)
      in map (\<lambda>((i, r), m). (fst k, snd k, i, m))
           (zip g (rolling_mean 3 (map (\<lambda>(i, r). value' r) g))))"

definition groupby_rolling_mean :: "stream list \<Rightarrow> error + rolling_row list" where
  "groupby_rolling_mean df =
     (if list_all hashable_key df
      then Inr (concat (map (group_rolling df) (group_keys df)))
      else Inl TypeError)"

text \<open>
  \<^verbatim>\<open>dropna\<close> on the result: \<^verbatim>\<open>lat\<close> and \<^verbatim>\<open>lon\<close> of a group are not missing and \<^verbatim>\<open>level_2\<close>
  is an integer, so a row is dropped when its mean is NaN.
\<close>

definition dropna :: "rolling_row list \<Rightarrow> rolling_row list" where
  "dropna rs = filter (\<lambda>(la, lo, i, m). m \<noteq> NaN) rs"

subsection \<open>The notification\<close>

text \<open>
  The body of the \<^verbatim>\<open>try\<close> of \<^verbatim>\<open>event_notification\<close> up to \<^verbatim>\<open>pm_value\<close>. \<^verbatim>\<open>iloc\<close> on the
  last row of an empty table and \<^verbatim>\<open>index[-1]\<close> of an empty selection raise
  \<^verbatim>\<open>IndexError\<close>.
\<close>

definition pm_value :: "stream list \<Rightarrow> error + pyfloat" where
  "pm_value df =
     bind (groupby_rolling_mean df) (\<lambda>rolling_average.
       if df = [] then Inl IndexError
       else
         let current_lat = lat (last df);
             current_lon = lon (last df);
             sel = filter (\<lambda>(la, lo, i, m). eq la current_lat \<and> eq lo current_lon)
                     (dropna rolling_average)
         in if sel = [] then Inl IndexError
            else Inr (snd (snd (snd (last sel)))))"

text \<open>
  What the notebook prints. \<open>Warning timestamp pm sensebox\<close> is the line of
  \<^verbatim>\<open>warning_event_response\<close>, which shows \<^verbatim>\<open>round(pm_value, 2)\<close>; the model keeps
  \<^verbatim>\<open>pm_value\<close> itself. \<open>Safe sensebox timestamp\<close> is the other line.
\<close>

datatype line = Warning json pyfloat json | Safe json json

definition warning_event_response :: "json \<Rightarrow> pyfloat \<Rightarrow> json \<Rightarrow> line" where
  "warning_event_response timestamp pm sensebox = Warning timestamp pm sensebox"

fun gt :: "pyfloat \<Rightarrow> real \<Rightarrow> bool" where
  "gt (Fin x) t = (t < x)"
| "gt PInf t = True"
| "gt NInf t = False"
| "gt NaN t = False"

text \<open>
  \<^verbatim>\<open>event_notification(df, pm_threshold)\<close>: the lines printed. The bare \<^verbatim>\<open>except\<close> turns
  every exception of the body into printing nothing.
\<close>

definition event_notification :: "stream list \<Rightarrow> real \<Rightarrow> line list" where
  "event_notification df pm_threshold =
     (case pm_value df of
        Inl e \<Rightarrow> []
      | Inr pm \<Rightarrow>
          let timestamp = day (last df);
              sensebox = boxId (last df)
          in if gt pm pm_threshold
             then [warning_event_response timestamp pm sensebox]
             else [Safe sensebox timestamp])"


subsection \<open>The map of active and inactive boxes\<close>

text \<open>
  \<^verbatim>\<open>gdf = gpd.GeoDataFrame(df, geometry=gpd.points_from_xy(df.lon, df.lat))\<close> followed by
  the removal of the columns \<^verbatim>\<open>lon\<close> and \<^verbatim>\<open>lat\<close>. The map is modelled for the tables the
  producer of the tutorial sends: finite numbers as coordinates, strings as \<^verbatim>\<open>day\<close> and
  \<^verbatim>\<open>boxId\<close>. \<open>GeoDataFrame\<close> is \<open>None\<close> on a table with a cell of another kind: what numpy
  and pandas make of such a cell is not modelled. A point is (x, y), that is
  (\<^verbatim>\<open>lon\<close>, \<^verbatim>\<open>lat\<close>).
\<close>

record gdf_row =
  g_value :: pyfloat
  g_day :: string
  g_boxId :: string
  geometry :: "real \<times> real"

definition from_row :: "stream \<Rightarrow> gdf_row option" where
  "from_row r =
     (case (lat r, lon r, day r, boxId r) of
        (JNum (Fin y), JNum (Fin x), JStr d, JStr b) \<Rightarrow>
          Some \<lparr>g_value = value' r, g_day = d, g_boxId = b, geometry = (x, y)\<rparr>
      | _ \<Rightarrow> None)"

definition GeoDataFrame :: "stream list \<Rightarrow> gdf_row list option" where
  "GeoDataFrame df = those (map from_row df)"

text \<open>
  The column \<^verbatim>\<open>valid\<close>: \<^verbatim>\<open>False if math.isnan(x) == True else True\<close>.
\<close>

definition valid :: "gdf_row \<Rightarrow> bool" where
  "valid r = (g_value r \<noteq> NaN)"

text \<open>
  \<^verbatim>\<open>recent_date = valid_boxes['day'].max()\<close>: the greatest string, characters compared by
  code; the maximum of an empty column is NaN, here \<open>None\<close>, and no \<^verbatim>\<open>day\<close> equals it.
\<close>

definition recent_date :: "gdf_row list \<Rightarrow> string option" where
  "recent_date gdf =
     (case map g_day (filter valid gdf) of
        [] \<Rightarrow> None
      | d # ds \<Rightarrow> Some (fold max ds d))"

text \<open>
  \<^verbatim>\<open>drop_duplicates(subset=[c])\<close> keeps the first row of every value of the column \<open>c\<close>.
\<close>

fun drop_duplicates :: "('a \<Rightarrow> 'k) \<Rightarrow> 'a list \<Rightarrow> 'a list" where
  "drop_duplicates c [] = []"
| "drop_duplicates c (x # xs) = x # drop_duplicates c (filter (\<lambda>y. c y \<noteq> c x) xs)"

definition active_rows :: "gdf_row list \<Rightarrow> gdf_row list" where
  "active_rows gdf =
     drop_duplicates g_boxId (filter (\<lambda>r. Some (g_day r) = recent_date gdf) gdf)"

definition active_boxes :: "gdf_row list \<Rightarrow> (real \<times> real) list" where
  "active_boxes gdf = map geometry (active_rows gdf)"

definition inactive_boxes :: "gdf_row list \<Rightarrow> (real \<times> real) list" where
  "inactive_boxes gdf =
     map geometry (drop_duplicates geometry (filter (\<lambda>r. \<not> valid r) gdf))"

subsection \<open>The consumer loop\<close>

text \<open>
  What \<^verbatim>\<open>consumer.poll\<close> returns: \<open>None\<close> after ten seconds without a message, else a
  message that carries an error code or a payload.
\<close>

datatype kafka_error = PARTITION_EOF | UNKNOWN_TOPIC_OR_PART | OTHER_ERROR

datatype message = Failed kafka_error | Received string

text \<open>
  The state the loop works on: the table \<^verbatim>\<open>df\<close>, the lines printed, the lines written to
  \<^verbatim>\<open>sys.stderr\<close> (one per error code reported), the number of calls of
  \<^verbatim>\<open>consumer.commit\<close>, and whether \<^verbatim>\<open>consumer.close\<close> was called.
\<close>

record notebook =
  df :: "stream list"
  stdout :: "line list"
  stderr :: "kafka_error list"
  commits :: nat
  closed :: bool

text \<open>
  One turn of the \<^verbatim>\<open>while\<close> loop for a message. The result is the exception that leaves
  the loop, if any, and the state then. \<^verbatim>\<open>commit\<close> is the last statement of the turn.
\<close>

definition turn ::
  "(string \<Rightarrow> json option) \<Rightarrow> (string \<Rightarrow> pyfloat option) \<Rightarrow> real \<Rightarrow> notebook \<Rightarrow> message
     \<Rightarrow> error option \<times> notebook" where
  "turn loads float pm_threshold s msg =
     (case msg of
        Failed PARTITION_EOF \<Rightarrow>
          (None, s\<lparr>stderr := stderr s @ [PARTITION_EOF], commits := Suc (commits s)\<rparr>)
      | Failed UNKNOWN_TOPIC_OR_PART \<Rightarrow>
          (None, s\<lparr>stderr := stderr s @ [UNKNOWN_TOPIC_OR_PART], commits := Suc (commits s)\<rparr>)
      | Failed OTHER_ERROR \<Rightarrow> (Some KafkaException, s)
      | Received v \<Rightarrow>
          (case decode loads float v of
             Inl e \<Rightarrow> (Some e, s)
           | Inr stream \<Rightarrow>
               let s1 = s\<lparr>df := df s @ [stream]\<rparr>;
                   s2 = s1\<lparr>stdout := stdout s1 @ event_notification (df s1) pm_threshold\<rparr>
               in (None, s2\<lparr>commits := Suc (commits s2)\<rparr>)))"

text \<open>
  The loop over what \<^verbatim>\<open>poll\<close> returns, turn after turn. The list holds the polls that
  return in time; after them \<^verbatim>\<open>poll\<close> returns \<^verbatim>\<open>None\<close> and the loop breaks. An exception
  ends the loop: the only handler is for \<^verbatim>\<open>KeyboardInterrupt\<close>, which is not modelled.
\<close>

fun consume ::
  "(string \<Rightarrow> json option) \<Rightarrow> (string \<Rightarrow> pyfloat option) \<Rightarrow> real \<Rightarrow> notebook
     \<Rightarrow> message option list \<Rightarrow> error option \<times> notebook" where
  "consume loads float pm_threshold s [] = (None, s)"
| "consume loads float pm_threshold s (None # polls) = (None, s)"
| "consume loads float pm_threshold s (Some msg # polls) =
     (case turn loads float pm_threshold s msg of
        (Some e, s') \<Rightarrow> (Some e, s')
      | (None, s') \<Rightarrow> consume loads float pm_threshold s' polls)"

text \<open>
  The whole cell: the loop, then \<^verbatim>\<open>consumer.close()\<close> in the \<^verbatim>\<open>finally\<close> clause.
\<close>

definition run ::
  "(string \<Rightarrow> json option) \<Rightarrow> (string \<Rightarrow> pyfloat option) \<Rightarrow> real \<Rightarrow> notebook
     \<Rightarrow> message option list \<Rightarrow> error option \<times> notebook" where
  "run loads float pm_threshold s polls =
     (case consume loads float pm_threshold s polls of (e, s') \<Rightarrow> (e, s'\<lparr>closed := True\<rparr>))"

subsection \<open>Notions of the specification\<close>

text \<open>
  The history of a key: the values of its readings in arrival order. The most recent \<open>n\<close>
  entries of a list. The arithmetic mean of a list of values, exact on the reals, where
  NaN and opposite infinities give NaN. The flag \<^verbatim>\<open>fired\<close> of a decision: a warning was
  printed.
\<close>

definition history :: "stream list \<Rightarrow> json \<Rightarrow> json \<Rightarrow> pyfloat list" where
  "history t la lo = map value' (filter (\<lambda>r. lat r = la \<and> lon r = lo) t)"

definition most_recent :: "nat \<Rightarrow> 'a list \<Rightarrow> 'a list" where
  "most_recent n xs = drop (length xs - n) xs"

fun exact_add :: "pyfloat \<Rightarrow> pyfloat \<Rightarrow> pyfloat" where
  "exact_add (Fin x) (Fin y) = Fin (x + y)"
| "exact_add NaN y = NaN"
| "exact_add x NaN = NaN"
| "exact_add PInf NInf = NaN"
| "exact_add NInf PInf = NaN"
| "exact_add PInf y = PInf"
| "exact_add x PInf = PInf"
| "exact_add NInf y = NInf"
| "exact_add x NInf = NInf"

fun exact_div :: "pyfloat \<Rightarrow> nat \<Rightarrow> pyfloat" where
  "exact_div (Fin x) n = Fin (x / real n)"
| "exact_div x n = x"

definition arithmetic_mean :: "pyfloat list \<Rightarrow> pyfloat" where
  "arithmetic_mean xs =
     (if xs = [] then NaN else exact_div (foldl exact_add (Fin 0) xs) (length xs))"

fun fired :: "line list \<Rightarrow> bool" where
  "fired [Warning timestamp pm sensebox] = True"
| "fired ls = False"

subsection \<open>Tables and messages used as examples\<close>

text \<open>
  The readings are those of the output of the notebook: the box
  \<^verbatim>\<open>5750220bed08f9680c6b4154\<close> at (51.956168, 7.651169) and its neighbours. Where an
  example computes a mean, its values are small integers, which are doubles; the values
  written as decimals are stored and compared only.
\<close>

definition reading :: "real \<Rightarrow> real \<Rightarrow> string \<Rightarrow> pyfloat \<Rightarrow> string \<Rightarrow> stream" where
  "reading la lo d v b =
     \<lparr>lat = JNum (Fin la), lon = JNum (Fin lo), day = JStr d, value' = v, boxId = JStr b\<rparr>"

definition box_5750 :: "string \<Rightarrow> real \<Rightarrow> stream" where
  "box_5750 d v = reading 51.956168 7.651169 d (Fin v) ''5750220bed08f9680c6b4154''"

definition first_four :: "stream list" where
  "first_four =
     [box_5750 ''2022-01-21T13:00:00.000Z'' 4.190406,
      box_5750 ''2022-01-22T14:00:00.000Z'' 6.322550,
      box_5750 ''2022-01-23T15:00:00.000Z'' 12.757133,
      box_5750 ''2022-01-24T16:00:00.000Z'' 26.606711]"

definition fifth :: stream where
  "fifth = box_5750 ''2022-01-25T17:00:00.000Z'' 38.289267"

definition other_box :: stream where
  "other_box =
     reading 51.964220 7.645220 ''2022-01-24T16:00:00.000Z'' (Fin 250) ''591f578c51d34600116a8ea5''"

text \<open>
  Three readings of one key followed by a reading of that key whose value is NaN: the
  values 1, 2, 3, and the values 30, 30, 30.
\<close>

definition nan_arrival :: "stream list" where
  "nan_arrival =
     [box_5750 ''2022-01-21T13:00:00.000Z'' 1,
      box_5750 ''2022-01-22T14:00:00.000Z'' 2,
      box_5750 ''2022-01-23T15:00:00.000Z'' 3,
      reading 51.956168 7.651169 ''2022-01-24T16:00:00.000Z'' NaN ''5750220bed08f9680c6b4154'']"

definition thirty_then_nan :: "stream list" where
  "thirty_then_nan =
     [box_5750 ''2022-01-21T13:00:00.000Z'' 30,
      box_5750 ''2022-01-22T14:00:00.000Z'' 30,
      box_5750 ''2022-01-23T15:00:00.000Z'' 30,
      reading 51.956168 7.651169 ''2022-01-24T16:00:00.000Z'' NaN ''5750220bed08f9680c6b4154'']"

text \<open>
  Five texts and what \<^verbatim>\<open>json.loads\<close> makes of them: a message as the producer sends it,
  a JSON list, a JSON number, an object whose value is a string, and a message cut off in
  the middle, which is no JSON. \<open>loads_example\<close> is \<^verbatim>\<open>json.loads\<close> on these five texts, the
  only ones the examples give it. \<open>float_example\<close> is \<^verbatim>\<open>float\<close> on the keys of the examples
  and on a key that is no number.
\<close>

definition second_message :: string where
  "second_message =
     ''{\"6.322550\": [51.956168, 7.651169, \"2022-01-22T14:00:00.000Z\", \"5750220bed08f9680c6b4154\"]}''"

definition second_reading :: stream where
  "second_reading = box_5750 ''2022-01-22T14:00:00.000Z'' 6.322550"

definition list_message :: string where
  "list_message = ''[6.322550, 51.956168, 7.651169]''"

definition number_message :: string where
  "number_message = ''6.322550''"

definition string_message :: string where
  "string_message = ''{\"5\": \"abcd\"}''"

definition string_reading :: stream where
  "string_reading =
     \<lparr>lat = JStr ''a'', lon = JStr ''b'', day = JStr ''c'', value' = Fin 5, boxId = JStr ''d''\<rparr>"

definition truncated_message :: string where
  "truncated_message = ''{\"6.322550\": [51.956168, 7.651169, \"2022-01-22T14:00''"

definition loads_example :: "string \<Rightarrow> json option" where
  "loads_example v =
     (if v = second_message
      then Some (JObj [(''6.322550'',
             JArr [JNum (Fin 51.956168), JNum (Fin 7.651169),
                   JStr ''2022-01-22T14:00:00.000Z'', JStr ''5750220bed08f9680c6b4154''])])
      else if v = list_message
      then Some (JArr [JNum (Fin 6.322550), JNum (Fin 51.956168), JNum (Fin 7.651169)])
      else if v = number_message
      then Some (JNum (Fin 6.322550))
      else if v = string_message
      then Some (JObj [(''5'', JStr ''abcd'')])
      else None)"

definition float_example :: "string \<Rightarrow> pyfloat option" where
  "float_example k =
     (if k = ''6.322550'' then Some (Fin 6.322550)
      else if k = ''4.190406'' then Some (Fin 4.190406)
      else if k = ''5'' then Some (Fin 5)
      else None)"

text \<open>
  A decoded object with two keys.
\<close>

definition two_keys :: json where
  "two_keys =
     JObj [(''6.322550'',
            JArr [JNum (Fin 51.956168), JNum (Fin 7.651169),
                  JStr ''2022-01-22T14:00:00.000Z'', JStr ''5750220bed08f9680c6b4154'']),
           (''4.190406'',
            JArr [JNum (Fin 51.964220), JNum (Fin 7.645220),
                  JStr ''2022-01-21T13:00:00.000Z'', JStr ''591f578c51d34600116a8ea5''])]"

definition started :: notebook where
  "started =
     \<lparr>df = [box_5750 ''2022-01-21T13:00:00.000Z'' 4.190406],
      stdout = [], stderr = [], commits = 1, closed = False\<rparr>"

text \<open>
  A table in which one box has no reading at the most recent date, and a table in which a
  box reports NaN at the most recent date, each with its frame.
\<close>

definition silent_box :: "stream list" where
  "silent_box =
     [box_5750 ''2022-01-27T19:00:00.000Z'' 7.5,
      reading 51.964220 7.645220 ''2022-01-27T19:00:00.000Z'' (Fin 250) ''591f578c51d34600116a8ea5'',
      box_5750 ''2022-01-28T20:00:00.000Z'' 4.5]"

definition silent_box_gdf :: "gdf_row list" where
  "silent_box_gdf =
     [\<lparr>g_value = Fin 7.5, g_day = ''2022-01-27T19:00:00.000Z'',
        g_boxId = ''5750220bed08f9680c6b4154'', geometry = (7.651169, 51.956168)\<rparr>,
      \<lparr>g_value = Fin 250, g_day = ''2022-01-27T19:00:00.000Z'',
        g_boxId = ''591f578c51d34600116a8ea5'', geometry = (7.645220, 51.964220)\<rparr>,
      \<lparr>g_value = Fin 4.5, g_day = ''2022-01-28T20:00:00.000Z'',
        g_boxId = ''5750220bed08f9680c6b4154'', geometry = (7.651169, 51.956168)\<rparr>]"

definition nan_at_recent_date :: "stream list" where
  "nan_at_recent_date =
     [box_5750 ''2022-01-28T20:00:00.000Z'' 4.5,
      reading 51.929340 7.684190 ''2022-01-28T20:00:00.000Z'' NaN ''59ad958fd67eb50011b85f6d'']"

definition nan_at_recent_date_gdf :: "gdf_row list" where
  "nan_at_recent_date_gdf =
     [\<lparr>g_value = Fin 4.5, g_day = ''2022-01-28T20:00:00.000Z'',
        g_boxId = ''5750220bed08f9680c6b4154'', geometry = (7.651169, 51.956168)\<rparr>,
      \<lparr>g_value = NaN, g_day = ''2022-01-28T20:00:00.000Z'',
        g_boxId = ''59ad958fd67eb50011b85f6d'', geometry = (7.684190, 51.929340)\<rparr>]"

lemmas example_defs =
  reading_def box_5750_def hashable_key_def history_def most_recent_def arithmetic_mean_def

section \<open>Properties of decoding\<close>

lemma parse_first_entry:
  "parse float (JObj ((k, v) # rest)) =
     bind (subscript v 0) (\<lambda>la.
     bind (subscript v 1) (\<lambda>lo.
     bind (subscript v 2) (\<lambda>d.
     bind (case float k of None \<Rightarrow> Inl ValueError | Some x \<Rightarrow> Inr x) (\<lambda>x.
     bind (subscript v 3) (\<lambda>b.
       Inr \<lparr>lat = la, lon = lo, day = d, value' = x, boxId = b\<rparr>)))))"
  by (simp add: parse_def bind_def)

text \<open>
  C7. A decoded message that is an object with exactly one key \<open>k\<close> bound to a list of
  four elements, where \<open>k\<close> is the text of a float, is parsed into the reading whose value
  is \<open>float k\<close>, whose latitude, longitude, timestamp and box label are the elements 0, 1, 2
  and 3 of the list.
\<close>

theorem parse_well_formed:
  assumes "float k = Some x"
  shows "parse float (JObj [(k, JArr [a, b, c, d])])
           = Inr \<lparr>lat = a, lon = b, day = c, value' = x, boxId = d\<rparr>"
  using assms by (simp add: parse_first_entry bind_def)

theorem parse_well_formed_witness:
  "parse (\<lambda>s. if s = ''4.190406'' then Some (Fin 4.190406) else None)
     (JObj [(''4.190406'',
             JArr [JNum (Fin 51.956168), JNum (Fin 7.651169),
                   JStr ''2022-01-21T13:00:00.000Z'', JStr ''5750220bed08f9680c6b4154''])])
   = Inr \<lparr>lat = JNum (Fin 51.956168), lon = JNum (Fin 7.651169),
          day = JStr ''2022-01-21T13:00:00.000Z'', value' = Fin 4.190406,
          boxId = JStr ''5750220bed08f9680c6b4154''\<rparr>"
  using parse_well_formed [of "\<lambda>s. if s = ''4.190406'' then Some (Fin 4.190406) else None"
      "''4.190406''" "Fin 4.190406"]
  by simp

text \<open>
  C9. When the decoded object has more than one entry, only the first entry in iteration
  order is read: its key is the value of the reading and the elements of its list are the
  fields, whatever the other entries are, and having several keys raises nothing. More
  generally the result, a reading or an exception, is the one of the object reduced to its
  first entry.
\<close>

theorem parse_first_key_only:
  assumes "float k = Some x"
  shows "parse float (JObj ((k, JArr [a, b, c, d]) # rest))
           = Inr \<lparr>lat = a, lon = b, day = c, value' = x, boxId = d\<rparr>
       \<and> parse float (JObj ((k, v) # rest)) = parse float (JObj [(k, v)])"
  using assms by (simp add: parse_first_entry bind_def)

theorem parse_first_key_only_witness:
  "float_example ''6.322550'' = Some (Fin 6.322550)
   \<and> parse float_example two_keys
       = Inr \<lparr>lat = JNum (Fin 51.956168), lon = JNum (Fin 7.651169),
              day = JStr ''2022-01-22T14:00:00.000Z'', value' = Fin 6.322550,
              boxId = JStr ''5750220bed08f9680c6b4154''\<rparr>"
  using parse_first_key_only [of float_example "''6.322550''" "Fin 6.322550"
      "JNum (Fin 51.956168)" "JNum (Fin 7.651169)" "JStr ''2022-01-22T14:00:00.000Z''"
      "JStr ''5750220bed08f9680c6b4154''"
      "[(''4.190406'',
         JArr [JNum (Fin 51.964220), JNum (Fin 7.645220),
               JStr ''2022-01-21T13:00:00.000Z'', JStr ''591f578c51d34600116a8ea5''])]"
      JNull]
  by (simp add: float_example_def two_keys_def)

section \<open>The arithmetic of the rolling mean\<close>

text \<open>
  The sum that pandas carries along a key loses what a large value absorbs: after the
  values \<open>- 10 ^ 20\<close> and \<open>10 ^ 20\<close> the window 25, 24, 26 has the mean 16.666666666666668.
  When the sum of two values overflows, the sum and the compensation become NaN and the
  later means of the key are NaN. The five values of the notebook give
  25.884370333333333 as their last mean.
\<close>

lemma rolling_mean_absorbed:
  "rolling_mean 3 [Fin (- (10 ^ 20)), Fin (10 ^ 20), Fin 25, Fin 24, Fin 26]
     = [NaN, NaN, Fin (4691249611844267 / 2 ^ 49), Fin 33333333333333331968,
        Fin (4691249611844267 / 2 ^ 48)]"
  by code_simp

lemma rolling_mean_after_overflow:
  assumes "double a = Fin a" "double (- a) = Fin (- a)" "fadd (Fin a) (Fin a) = PInf" "a \<noteq> 1"
  shows "rolling_mean 3 [Fin a, Fin a, Fin 1, Fin 2, Fin 3] = [NaN, NaN, NaN, NaN, NaN]"
  using assms
  by (simp add: rolling_mean_def roll_mean_def zero_state_def advance_def add_mean_def
      remove_mean_def calc_mean_def fsub_def feq_def Let_def upt_rec double_def)

lemma rolling_mean_notebook:
  "rolling_mean 3 [double 4.190406, double 6.322550, double 12.757133, double 26.606711,
                   double 38.289267]
     = [NaN, NaN, Fin (8733263679106523 / 2 ^ 50), Fin (8573051124762569 / 2 ^ 49),
        Fin (7285802536744995 / 2 ^ 48)]"
  by code_simp

lemma rolling_mean_one_two_three:
  "rolling_mean 3 [Fin 1, Fin 2, Fin 3, NaN] = [NaN, NaN, Fin 2, NaN]"
  by code_simp

lemma rolling_mean_thirty:
  "rolling_mean 3 [Fin 30, Fin 30, Fin 30, NaN] = [NaN, NaN, Fin 30, NaN]"
  by code_simp

section \<open>The rolling mean of the current key\<close>

lemma length_roll: "length (roll n values st ixs) = length ixs"
  by (induction ixs arbitrary: st) (simp_all add: Let_def)

lemma length_rolling_mean: "length (rolling_mean n xs) = length xs"
  by (simp add: rolling_mean_def roll_mean_def length_roll)

lemma nobs_add_mean: "nobs (add_mean v st) \<le> nobs st + 1"
  by (simp add: add_mean_def Let_def)

lemma roll_warm_up:
  assumes "nobs st \<le> int k" "m < n"
  shows "set (roll n values st [k..<m]) \<subseteq> {NaN}"
  using assms
proof (induction "m - k" arbitrary: k st)
  case 0
  then show ?case by simp
next
  case (Suc d)
  then have km: "k < m" by simp
  let ?st = "advance n values st k"
  have adv: "?st = add_mean (values ! k) st"
    using km Suc.prems(2) by (simp add: advance_def)
  have nobs: "nobs ?st \<le> int (Suc k)"
    using nobs_add_mean [of "values ! k" st] Suc.prems(1) adv by simp
  then have "calc_mean n ?st = NaN"
    using km Suc.prems(2) by (simp add: calc_mean_def)
  moreover have "set (roll n values ?st [Suc k..<m]) \<subseteq> {NaN}"
    using Suc.hyps(2) nobs Suc.prems(2) by (intro Suc.hyps(1)) simp_all
  ultimately show ?case
    using km by (simp add: upt_conv_Cons Let_def)
qed

lemma rolling_mean_short:
  assumes "length xs < n"
  shows "filter (\<lambda>m. m \<noteq> NaN) (rolling_mean n xs) = []"
proof -
  have "set (roll n (map prep_value xs) (zero_state (map prep_value xs)) [0..<length xs])
          \<subseteq> {NaN}"
    using assms by (intro roll_warm_up) (simp_all add: zero_state_def)
  then show ?thesis
    by (auto simp: rolling_mean_def roll_mean_def filter_empty_conv)
qed

lemma group_rows_values:
  "map (\<lambda>(i, r). value' r) (filter (\<lambda>(i, r). (lat r, lon r) = (la, lo)) (enumerate 0 t))
     = history t la lo"
proof -
  have "map (\<lambda>(i, r). value' r) (filter (\<lambda>(i, r). (lat r, lon r) = (la, lo)) (enumerate 0 t))
      = map value' (map snd (filter ((\<lambda>r. lat r = la \<and> lon r = lo) \<circ> snd) (enumerate 0 t)))"
    by (simp add: comp_def case_prod_unfold)
  also have "\<dots> = map value' (filter (\<lambda>r. lat r = la \<and> lon r = lo) (map snd (enumerate 0 t)))"
    by (simp only: filter_map)
  finally show ?thesis by (simp add: history_def)
qed

lemma group_rolling_means:
  "map (\<lambda>(a, b, i, m). m) (group_rolling t (la, lo)) = rolling_mean 3 (history t la lo)"
proof -
  let ?g = "filter (\<lambda>(i, r). (lat r, lon r) = (la, lo)) (enumerate 0 t)"
  let ?ms = "rolling_mean 3 (map (\<lambda>(i, r). value' r) ?g)"
  have len: "length ?g = length ?ms" by (simp add: length_rolling_mean)
  have "map (\<lambda>(a, b, i, m). m) (group_rolling t (la, lo)) = map snd (zip ?g ?ms)"
    by (simp add: group_rolling_def Let_def case_prod_unfold comp_def)
  also have "\<dots> = ?ms" using len by simp
  finally show ?thesis by (simp only: group_rows_values)
qed

lemma group_rolling_key:
  "(a, b, i, m) \<in> set (group_rolling t k) \<Longrightarrow> k = (a, b)"
  by (auto simp: group_rolling_def Let_def)

lemma filter_group:
  assumes "\<not> isna la" "\<not> isna lo"
  shows "filter (\<lambda>(a, b, i, m). eq a la \<and> eq b lo) (group_rolling t k)
           = (if k = (la, lo) then group_rolling t k else [])"
proof (cases "k = (la, lo)")
  case True
  have "\<forall>row \<in> set (group_rolling t k). (\<lambda>(a, b, i, m). eq a la \<and> eq b lo) row"
    using assms True by (auto simp: eq_def dest!: group_rolling_key)
  then show ?thesis using True by (simp add: filter_id_conv)
next
  case False
  have "\<forall>row \<in> set (group_rolling t k). \<not> (\<lambda>(a, b, i, m). eq a la \<and> eq b lo) row"
    using False by (auto simp: eq_def dest!: group_rolling_key)
  then show ?thesis using False by (simp add: filter_empty_conv)
qed

lemma filter_groups:
  assumes "\<not> isna la" "\<not> isna lo" "distinct ks"
  shows "filter (\<lambda>(a, b, i, m). eq a la \<and> eq b lo) (concat (map (group_rolling t) ks))
           = (if (la, lo) \<in> set ks then group_rolling t (la, lo) else [])"
  using assms(3)
proof (induction ks)
  case Nil
  then show ?case by simp
next
  case (Cons k ks)
  then show ?case using filter_group [OF assms(1,2), of t k] by auto
qed

lemma filter_isna_key:
  assumes "isna la \<or> isna lo"
  shows "filter (\<lambda>(a, b, i, m). eq a la \<and> eq b lo) rs = []"
  using assms by (auto simp: filter_empty_conv eq_def)

lemma last_key_grouped:
  assumes "t \<noteq> []" "\<not> isna (lat (last t))" "\<not> isna (lon (last t))"
  shows "(lat (last t), lon (last t)) \<in> set (group_keys t)"
  using assms by (auto simp: group_keys_def intro!: image_eqI [where x = "last t"])

lemma dropna_means:
  "map (\<lambda>(a, b, i, m). m) (dropna rs) = filter (\<lambda>m. m \<noteq> NaN) (map (\<lambda>(a, b, i, m). m) rs)"
  by (induction rs) (auto simp: dropna_def)

lemma dropna_filter:
  "filter P (dropna rs) = dropna (filter P rs)"
  by (auto simp: dropna_def intro: filter_cong)

text \<open>
  The value that \<^verbatim>\<open>event_notification\<close> compares with the threshold is read off the
  history of the key of the last row: it is the last mean that is not NaN among the
  rolling means of that history.
\<close>

lemma pm_value_eq:
  "pm_value t =
    (if \<not> list_all hashable_key t then Inl TypeError
     else if t = [] \<or> isna (lat (last t)) \<or> isna (lon (last t)) then Inl IndexError
     else let ms = filter (\<lambda>m. m \<noteq> NaN)
                     (rolling_mean 3 (history t (lat (last t)) (lon (last t))))
          in if ms = [] then Inl IndexError else Inr (last ms))"
proof (cases "list_all hashable_key t")
  case False
  then show ?thesis
    by (simp add: pm_value_def groupby_rolling_mean_def bind_def)
next
  case h: True
  then have hk: "list_all hashable_key t" .
  show ?thesis
  proof (cases "t = []")
    case True
    then show ?thesis
      using h hk by (simp add: pm_value_def groupby_rolling_mean_def bind_def)
  next
    case ne: False
    let ?la = "lat (last t)" and ?lo = "lon (last t)"
    let ?sel = "filter (\<lambda>(a, b, i, m). eq a ?la \<and> eq b ?lo)
                  (dropna (concat (map (group_rolling t) (group_keys t))))"
    have pm: "pm_value t
        = (if ?sel = [] then Inl IndexError else Inr (snd (snd (snd (last ?sel)))))"
      using h ne by (simp add: pm_value_def groupby_rolling_mean_def bind_def Let_def)
    show ?thesis
    proof (cases "isna ?la \<or> isna ?lo")
      case True
      then have "?sel = []" by (rule filter_isna_key)
      then show ?thesis using pm hk ne True by simp
    next
      case False
      then have na: "\<not> isna ?la" "\<not> isna ?lo" by auto
      have "?sel = dropna (group_rolling t (?la, ?lo))"
        using filter_groups [OF na, of "group_keys t" t] last_key_grouped [OF ne na]
        by (simp add: dropna_filter group_keys_def)
      then have means: "map (\<lambda>(a, b, i, m). m) ?sel
                 = filter (\<lambda>m. m \<noteq> NaN) (rolling_mean 3 (history t ?la ?lo))"
        by (simp add: dropna_means group_rolling_means)
      show ?thesis
      proof (cases "?sel = []")
        case True
        then show ?thesis using pm hk ne False means by (simp add: Let_def)
      next
        case sel: False
        have "snd (snd (snd (last ?sel))) = last (map (\<lambda>(a, b, i, m). m) ?sel)"
          using sel by (simp add: last_map case_prod_unfold)
        also have "\<dots> = last (filter (\<lambda>m. m \<noteq> NaN) (rolling_mean 3 (history t ?la ?lo)))"
          by (simp only: means)
        finally have l: "snd (snd (snd (last ?sel)))
            = last (filter (\<lambda>m. m \<noteq> NaN) (rolling_mean 3 (history t ?la ?lo)))" .
        have "filter (\<lambda>m. m \<noteq> NaN) (rolling_mean 3 (history t ?la ?lo)) \<noteq> []"
          using sel means by (metis map_is_Nil_conv)
        then show ?thesis using pm hk ne False sel l by (simp add: Let_def)
      qed
    qed
  qed
qed


section \<open>The decision for a reading\<close>

text \<open>
  C1, evaluated where the code departs from it. After the values 1, 2, 3 of one key, a
  reading of that key with the value NaN arrives. The key has four readings; the three
  most recent values are 2, 3 and NaN, whose arithmetic mean is NaN. The rolling mean of
  that window is dropped by \<^verbatim>\<open>dropna\<close>, \<^verbatim>\<open>index[-1]\<close> takes the row before, and the value
  compared with the threshold for the new reading is 2, the mean of 1, 2, 3.
\<close>

theorem stale_mean_at_nan:
  "3 \<le> length (history nan_arrival (lat (last nan_arrival)) (lon (last nan_arrival)))
   \<and> most_recent 3 (history nan_arrival (lat (last nan_arrival)) (lon (last nan_arrival)))
       = [Fin 2, Fin 3, NaN]
   \<and> arithmetic_mean [Fin 2, Fin 3, NaN] = NaN
   \<and> rolling_mean 3 [Fin 1, Fin 2, Fin 3, NaN] = [NaN, NaN, Fin 2, NaN]
   \<and> pm_value nan_arrival = Inr (Fin 2)"
proof (intro conjI)
  show "3 \<le> length (history nan_arrival (lat (last nan_arrival)) (lon (last nan_arrival)))"
    by (simp add: nan_arrival_def example_defs)
  show "most_recent 3 (history nan_arrival (lat (last nan_arrival)) (lon (last nan_arrival)))
       = [Fin 2, Fin 3, NaN]"
    by (simp add: nan_arrival_def example_defs)
  show "arithmetic_mean [Fin 2, Fin 3, NaN] = NaN"
    by (simp add: arithmetic_mean_def)
  show "rolling_mean 3 [Fin 1, Fin 2, Fin 3, NaN] = [NaN, NaN, Fin 2, NaN]"
    by (rule rolling_mean_one_two_three)
  show "pm_value nan_arrival = Inr (Fin 2)"
    by (simp add: nan_arrival_def example_defs pm_value_def groupby_rolling_mean_def
        group_keys_def group_rolling_def dropna_def eq_def bind_def Let_def enumerate_eq_zip
        upt_rec rolling_mean_one_two_three)
qed

text \<open>
  C3, evaluated where the code departs from it. After the values 30, 30, 30 of one key, a
  reading of that key with the value NaN arrives, the threshold being 20. The rolling
  mean of the three most recent values 30, 30, NaN is NaN, which is not greater than the
  threshold; the code compares the mean 30 of the window before and prints the warning
  for the new reading.
\<close>

theorem warning_on_stale_mean:
  "most_recent 3
     (history thirty_then_nan (lat (last thirty_then_nan)) (lon (last thirty_then_nan)))
       = [Fin 30, Fin 30, NaN]
   \<and> arithmetic_mean [Fin 30, Fin 30, NaN] = NaN
   \<and> \<not> gt NaN 20
   \<and> rolling_mean 3 [Fin 30, Fin 30, Fin 30, NaN] = [NaN, NaN, Fin 30, NaN]
   \<and> pm_value thirty_then_nan = Inr (Fin 30)
   \<and> event_notification thirty_then_nan 20
       = [Warning (JStr ''2022-01-24T16:00:00.000Z'') (Fin 30) (JStr ''5750220bed08f9680c6b4154'')]
   \<and> fired (event_notification thirty_then_nan 20)"
proof -
  have pm: "pm_value thirty_then_nan = Inr (Fin 30)"
    by (simp add: thirty_then_nan_def example_defs pm_value_def groupby_rolling_mean_def
        group_keys_def group_rolling_def dropna_def eq_def bind_def Let_def enumerate_eq_zip
        upt_rec rolling_mean_thirty)
  have ev: "event_notification thirty_then_nan 20
       = [Warning (JStr ''2022-01-24T16:00:00.000Z'') (Fin 30) (JStr ''5750220bed08f9680c6b4154'')]"
    by (simp add: event_notification_def pm warning_event_response_def)
      (simp add: thirty_then_nan_def reading_def)
  have "most_recent 3
     (history thirty_then_nan (lat (last thirty_then_nan)) (lon (last thirty_then_nan)))
       = [Fin 30, Fin 30, NaN]"
    by (simp add: thirty_then_nan_def example_defs)
  moreover have "arithmetic_mean [Fin 30, Fin 30, NaN] = NaN"
    by (simp add: arithmetic_mean_def)
  ultimately show ?thesis
    using pm ev rolling_mean_thirty by simp
qed

text \<open>
  C5. A reading of another key, ingested at any earlier moment, changes neither the
  history of the key of a reading nor the mean computed for that reading nor the line
  printed for it: the decision for a reading depends on the readings of its own key only.
  The other reading has a hashable key, as every pair of numbers has.
\<close>

theorem other_key_independent:
  assumes "hashable_key r2" and "(lat r2, lon r2) \<noteq> (lat r1, lon r1)"
  shows "history (t1 @ [r2] @ t2) (lat r1) (lon r1) = history (t1 @ t2) (lat r1) (lon r1)
       \<and> pm_value (t1 @ [r2] @ t2 @ [r1]) = pm_value (t1 @ t2 @ [r1])
       \<and> event_notification (t1 @ [r2] @ t2 @ [r1]) pm_threshold
           = event_notification (t1 @ t2 @ [r1]) pm_threshold"
proof -
  have k: "\<not> (lat r2 = lat r1 \<and> lon r2 = lon r1)" using assms(2) by simp
  have h: "history (t1 @ [r2] @ t2) (lat r1) (lon r1) = history (t1 @ t2) (lat r1) (lon r1)"
    using k by (simp add: history_def)
  have h': "history (t1 @ [r2] @ t2 @ [r1]) (lat r1) (lon r1)
          = history (t1 @ t2 @ [r1]) (lat r1) (lon r1)"
    using k by (simp add: history_def)
  have l: "last (t1 @ [r2] @ t2 @ [r1]) = r1" "last (t1 @ t2 @ [r1]) = r1" by simp_all
  have a: "list_all hashable_key (t1 @ [r2] @ t2 @ [r1]) = list_all hashable_key (t1 @ t2 @ [r1])"
    using assms(1) by simp
  have pm: "pm_value (t1 @ [r2] @ t2 @ [r1]) = pm_value (t1 @ t2 @ [r1])"
    unfolding pm_value_eq [of "t1 @ [r2] @ t2 @ [r1]"] pm_value_eq [of "t1 @ t2 @ [r1]"] l h' a
    by simp
  have "event_notification (t1 @ [r2] @ t2 @ [r1]) pm_threshold
           = event_notification (t1 @ t2 @ [r1]) pm_threshold"
    unfolding event_notification_def pm l ..
  with h pm show ?thesis by simp
qed

theorem other_key_independent_witness:
  "hashable_key other_box \<and> (lat other_box, lon other_box) \<noteq> (lat fifth, lon fifth)
   \<and> pm_value (take 2 first_four @ [other_box] @ drop 2 first_four @ [fifth])
       = pm_value (take 2 first_four @ drop 2 first_four @ [fifth])
   \<and> event_notification (take 2 first_four @ [other_box] @ drop 2 first_four @ [fifth]) 20
       = event_notification (take 2 first_four @ drop 2 first_four @ [fifth]) 20"
  using other_key_independent [of other_box fifth "take 2 first_four" "drop 2 first_four" 20]
  by (simp add: other_box_def fifth_def example_defs)

section \<open>The loop and the table\<close>

lemma turn_df:
  "df (snd (turn loads float th s msg))
     = (case msg of
          Failed c \<Rightarrow> df s
        | Received v \<Rightarrow> (case decode loads float v of Inl e \<Rightarrow> df s | Inr r \<Rightarrow> df s @ [r]))"
  by (simp add: turn_def Let_def split: message.splits kafka_error.splits sum.splits)

lemma turn_prefix: "prefix (df s) (df (snd (turn loads float th s msg)))"
  by (simp add: turn_df split: message.splits sum.splits)

lemma consume_prefix: "prefix (df s) (df (snd (consume loads float th s polls)))"
proof (induction polls arbitrary: s)
  case Nil
  then show ?case by simp
next
  case (Cons p polls)
  show ?case
  proof (cases p)
    case None
    then show ?thesis by simp
  next
    case (Some msg)
    obtain e s' where t: "turn loads float th s msg = (e, s')"
      by (cases "turn loads float th s msg")
    have p: "prefix (df s) (df s')" using turn_prefix [of s loads float th msg] t by simp
    show ?thesis
    proof (cases e)
      case None
      then show ?thesis
        using Some t p Cons.IH [of s'] by (auto intro: prefix_order.trans)
    next
      case (Some a)
      then show ?thesis using \<open>p = Some msg\<close> t p by simp
    qed
  qed
qed

lemma turn_received:
  assumes "decode loads float v = Inr r"
  shows "turn loads float th s (Received v)
         = (None, s\<lparr>df := df s @ [r],
                     stdout := stdout s @ event_notification (df s @ [r]) th,
                     commits := Suc (commits s)\<rparr>)"
  using assms by (simp add: turn_def Let_def)

lemma history_snoc_short:
  assumes "length (history (t @ [r]) (lat r) (lon r)) < 3"
  shows "\<exists>e. pm_value (t @ [r]) = Inl e"
  using rolling_mean_short [OF assms] by (simp add: pm_value_eq Let_def)

text \<open>
  C2. When the key of the reading just decoded has fewer than three readings in the
  table, the appended reading included, \<^verbatim>\<open>event_notification\<close> has no mean to compare and
  prints nothing, neither the warning nor the safe line; the turn of the loop raises
  nothing, appends the reading, commits and goes on.
\<close>

theorem warm_up_no_decision:
  assumes "decode loads float v = Inr r"
    and "length (history (df s @ [r]) (lat r) (lon r)) < 3"
  shows "(\<exists>e. pm_value (df s @ [r]) = Inl e)
       \<and> event_notification (df s @ [r]) pm_threshold = []
       \<and> turn loads float pm_threshold s (Received v)
           = (None, s\<lparr>df := df s @ [r], commits := Suc (commits s)\<rparr>)"
proof -
  from history_snoc_short [OF assms(2)] obtain e where e: "pm_value (df s @ [r]) = Inl e" ..
  then have n: "event_notification (df s @ [r]) pm_threshold = []"
    by (simp add: event_notification_def)
  show ?thesis using e n assms(1) by (simp add: turn_def Let_def)
qed

theorem warm_up_no_decision_witness:
  "decode loads_example float_example second_message = Inr second_reading
   \<and> length (history (df started @ [second_reading]) (lat second_reading) (lon second_reading)) < 3
   \<and> stdout (snd (turn loads_example float_example 20 started (Received second_message))) = []
   \<and> fst (turn loads_example float_example 20 started (Received second_message)) = None"
  using warm_up_no_decision [of loads_example float_example second_message second_reading
      started 20]
  by (simp add: decode_def loads_example_def float_example_def parse_first_entry bind_def
      second_reading_def started_def example_defs)

text \<open>
  C6. A decoded reading is appended as the last row of the table, whether or not an equal
  row is there already: the table grows by exactly one row, the same message received
  twice gives two rows, and whatever the loop receives, the table it started with stays
  as the beginning of the table it ends with.
\<close>

theorem every_reading_appended:
  assumes "decode loads float v = Inr r"
  shows "df (snd (turn loads float th s (Received v))) = df s @ [r]
       \<and> length (df (snd (turn loads float th s (Received v)))) = Suc (length (df s))
       \<and> df (snd (consume loads float th s [Some (Received v), Some (Received v)]))
           = df s @ [r, r]
       \<and> prefix (df s) (df (snd (consume loads float th s polls)))"
  using assms consume_prefix [of s loads float th polls] by (simp add: turn_received)

theorem every_reading_appended_witness:
  "decode loads_example float_example second_message = Inr second_reading
   \<and> df (snd (consume loads_example float_example 20 (started\<lparr>df := [second_reading]\<rparr>)
         [Some (Received second_message), Some (Received second_message)]))
       = [second_reading, second_reading, second_reading]"
  using every_reading_appended [of loads_example float_example second_message second_reading 20
      "started\<lparr>df := [second_reading]\<rparr>" "[]"]
  by (simp add: decode_def loads_example_def float_example_def second_reading_def
      parse_first_entry bind_def example_defs)

text \<open>
  C4, as amended. A message on which decoding raises an exception (the text is no JSON,
  the value decoded has no \<^verbatim>\<open>keys\<close>, the object is empty, the first value has no elements
  0 to 3, or the first key is not the text of a float) is neither dropped nor logged: the
  exception leaves the loop, the later messages are not processed, nothing is written or
  committed for the message, the consumer is closed, and the table is the one before the
  message. A message of the wrong shape on which decoding raises nothing is not noticed:
  it is appended as a reading, as is an object whose first value is a string of four
  characters or more, which gives the four characters as fields.
\<close>

theorem decode_failure_stops_loop:
  "(decode loads float v = Inl e \<longrightarrow>
      turn loads float th s (Received v) = (Some e, s)
      \<and> consume loads float th s (Some (Received v) # polls) = (Some e, s)
      \<and> run loads float th s (Some (Received v) # polls) = (Some e, s\<lparr>closed := True\<rparr>))
   \<and> (decode loads float v = Inr r \<longrightarrow>
      df (snd (turn loads float th s (Received v))) = df s @ [r])
   \<and> (float k = Some x \<longrightarrow>
      parse float (JObj [(k, JStr (c0 # c1 # c2 # c3 # cs))])
        = Inr \<lparr>lat = JStr [c0], lon = JStr [c1], day = JStr [c2], value' = x,
               boxId = JStr [c3]\<rparr>)"
  by (simp add: turn_def run_def Let_def parse_first_entry bind_def)

theorem decode_failure_stops_loop_witness:
  "decode loads_example float_example list_message = Inl AttributeError
   \<and> decode loads_example float_example number_message = Inl AttributeError
   \<and> consume loads_example float_example 20 started
       [Some (Received list_message), Some (Received second_message)]
     = (Some AttributeError, started)
   \<and> decode loads_example float_example string_message = Inr string_reading
   \<and> df (snd (turn loads_example float_example 20 started (Received string_message)))
     = df started @ [string_reading]
   \<and> float_example ''5'' = Some (Fin 5)
   \<and> parse float_example (JObj [(''5'', JStr ''abcd'')]) = Inr string_reading"
  using decode_failure_stops_loop [of loads_example float_example list_message
      AttributeError 20 started "[Some (Received second_message)]" string_reading
      "''5''" "Fin 5" "CHR ''a''" "CHR ''b''" "CHR ''c''" "CHR ''d''" "[]"]
    decode_failure_stops_loop [of loads_example float_example string_message
      AttributeError 20 started "[]" string_reading
      "''5''" "Fin 5" "CHR ''a''" "CHR ''b''" "CHR ''c''" "CHR ''d''" "[]"]
  by (simp add: decode_def loads_example_def float_example_def list_message_def
      second_message_def number_message_def string_message_def string_reading_def
      parse_def bind_def)

text \<open>
  C4 as stated fails in two ways. After a message cut off in the middle, which is no
  JSON, the loop does not go on to the next message: the good message that follows, which
  alone would be appended, never reaches the table. And a message of the wrong shape, an
  object whose value is the string \<^verbatim>\<open>abcd\<close>, is not dropped: it is appended and starts the
  history of the key (a, b).
\<close>

theorem decode_failure_counterexample:
  "decode loads_example float_example truncated_message = Inl JSONDecodeError
   \<and> consume loads_example float_example 20 started
       [Some (Received truncated_message), Some (Received second_message)]
     = (Some JSONDecodeError, started)
   \<and> df (snd (consume loads_example float_example 20 started [Some (Received second_message)]))
     = df started @ [second_reading]
   \<and> df (snd (consume loads_example float_example 20 started [Some (Received string_message)]))
     = df started @ [string_reading]
   \<and> history (df started) (JStr ''a'') (JStr ''b'') = []
   \<and> history (df started @ [string_reading]) (JStr ''a'') (JStr ''b'') = [Fin 5]"
  by (simp add: decode_def loads_example_def float_example_def second_message_def
      list_message_def number_message_def string_message_def truncated_message_def
      second_reading_def string_reading_def parse_first_entry bind_def turn_def started_def
      Let_def example_defs)

section \<open>The active and the inactive boxes\<close>

lemma drop_duplicates_subset: "set (drop_duplicates c xs) \<subseteq> set xs"
  by (induction c xs rule: drop_duplicates.induct) auto

lemma drop_duplicates_image: "c ` set (drop_duplicates c xs) = c ` set xs"
  by (induction c xs rule: drop_duplicates.induct) auto

lemma inactive_boxes_set:
  "set (inactive_boxes g) = geometry ` {r \<in> set g. g_value r = NaN}"
proof -
  have "set (inactive_boxes g) = geometry ` set (filter (\<lambda>r. \<not> valid r) g)"
    unfolding inactive_boxes_def set_map by (rule drop_duplicates_image)
  then show ?thesis by (simp add: valid_def)
qed

lemma active_rows_subset:
  "set (active_rows g) \<subseteq> {r \<in> set g. Some (g_day r) = recent_date g}"
  using drop_duplicates_subset [of g_boxId "filter (\<lambda>r. Some (g_day r) = recent_date g) g"]
  by (auto simp: active_rows_def)

lemma active_rows_boxes:
  "g_boxId ` set (active_rows g) = g_boxId ` {r \<in> set g. Some (g_day r) = recent_date g}"
  using drop_duplicates_image [of g_boxId "filter (\<lambda>r. Some (g_day r) = recent_date g) g"]
  by (simp add: active_rows_def)

lemma nan_at_recent_date_frame: "GeoDataFrame nan_at_recent_date = Some nan_at_recent_date_gdf"
  by (simp add: nan_at_recent_date_def nan_at_recent_date_gdf_def reading_def box_5750_def
      GeoDataFrame_def from_row_def)

lemma nan_at_recent_date_active:
  "active_boxes nan_at_recent_date_gdf = [(7.651169, 51.956168), (7.684190, 51.929340)]"
  by (simp add: nan_at_recent_date_gdf_def active_boxes_def active_rows_def recent_date_def
      valid_def)

lemma nan_at_recent_date_inactive:
  "inactive_boxes nan_at_recent_date_gdf = [(7.684190, 51.929340)]"
  by (simp add: nan_at_recent_date_gdf_def inactive_boxes_def valid_def)

lemma overlap_condition:
  assumes "r \<in> set g" "g_value r = NaN" "recent_date g = Some (g_day r)"
    and "\<forall>x \<in> set g. g_boxId x = g_boxId r \<longrightarrow> geometry x = geometry r"
  shows "geometry r \<in> set (active_boxes g) \<and> geometry r \<in> set (inactive_boxes g)"
proof
  from assms(1,3) have "g_boxId r \<in> g_boxId ` {x \<in> set g. Some (g_day x) = recent_date g}"
    by auto
  then have "g_boxId r \<in> g_boxId ` set (active_rows g)" by (simp only: active_rows_boxes)
  then obtain x where x: "x \<in> set (active_rows g)" "g_boxId x = g_boxId r" by auto
  then have "x \<in> set g" using active_rows_subset by auto
  then have "geometry x = geometry r" using assms(4) x(2) by simp
  then show "geometry r \<in> set (active_boxes g)"
    using x(1) by (auto simp: active_boxes_def intro!: image_eqI [where x = x])
next
  show "geometry r \<in> set (inactive_boxes g)"
    using assms(1,2) by (auto simp: inactive_boxes_set)
qed


text \<open>
  C8, evaluated where the code departs from it. The table holds readings of two boxes;
  the most recent date is 2022-01-28, at which only the first box has a reading. The
  second box, at (51.964220, 7.645220), did not return a value for the most recent date:
  it is not among the active points, and it is not among the inactive points either,
  which are taken from the NaN readings alone. The map shows it nowhere.
\<close>

theorem silent_box_unmarked:
  "GeoDataFrame silent_box = Some silent_box_gdf
   \<and> recent_date silent_box_gdf = Some ''2022-01-28T20:00:00.000Z''
   \<and> (7.645220, 51.964220) \<in> geometry ` set silent_box_gdf
   \<and> active_boxes silent_box_gdf = [(7.651169, 51.956168)]
   \<and> inactive_boxes silent_box_gdf = []"
  by (simp add: silent_box_def silent_box_gdf_def reading_def box_5750_def GeoDataFrame_def
      from_row_def active_boxes_def active_rows_def inactive_boxes_def recent_date_def
      valid_def max_def)

text \<open>
  C10. A point is inactive exactly when a reading at it has the value NaN. The active
  points are chosen by \<^verbatim>\<open>day\<close> alone, NaN or not: a box that has a NaN reading at the most
  recent date, and all of whose rows are at one location, is both among the active and
  among the inactive points. The table \<open>nan_at_recent_date\<close> is such a history: the box at
  (51.929340, 7.684190) is in both lists.
\<close>

theorem active_and_inactive_overlap:
  "(p \<in> set (inactive_boxes g) \<longleftrightarrow> (\<exists>r \<in> set g. g_value r = NaN \<and> geometry r = p))
   \<and> (r \<in> set g \<and> g_value r = NaN \<and> recent_date g = Some (g_day r)
        \<and> (\<forall>x \<in> set g. g_boxId x = g_boxId r \<longrightarrow> geometry x = geometry r) \<longrightarrow>
      geometry r \<in> set (active_boxes g) \<and> geometry r \<in> set (inactive_boxes g))
   \<and> GeoDataFrame nan_at_recent_date = Some nan_at_recent_date_gdf
   \<and> (7.684190, 51.929340) \<in> set (active_boxes nan_at_recent_date_gdf)
   \<and> (7.684190, 51.929340) \<in> set (inactive_boxes nan_at_recent_date_gdf)"
proof (intro conjI)
  show "p \<in> set (inactive_boxes g) \<longleftrightarrow> (\<exists>r \<in> set g. g_value r = NaN \<and> geometry r = p)"
    by (auto simp: inactive_boxes_set)
  show "r \<in> set g \<and> g_value r = NaN \<and> recent_date g = Some (g_day r)
        \<and> (\<forall>x \<in> set g. g_boxId x = g_boxId r \<longrightarrow> geometry x = geometry r) \<longrightarrow>
      geometry r \<in> set (active_boxes g) \<and> geometry r \<in> set (inactive_boxes g)"
    using overlap_condition [of r g] by blast
  show "GeoDataFrame nan_at_recent_date = Some nan_at_recent_date_gdf"
    by (rule nan_at_recent_date_frame)
  show "(7.684190, 51.929340) \<in> set (active_boxes nan_at_recent_date_gdf)"
    by (simp add: nan_at_recent_date_active)
  show "(7.684190, 51.929340) \<in> set (inactive_boxes nan_at_recent_date_gdf)"
    by (simp add: nan_at_recent_date_inactive)
qed

theorem active_and_inactive_overlap_witness:
  "last nan_at_recent_date_gdf \<in> set nan_at_recent_date_gdf
   \<and> g_value (last nan_at_recent_date_gdf) = NaN
   \<and> recent_date nan_at_recent_date_gdf = Some (g_day (last nan_at_recent_date_gdf))
   \<and> geometry (last nan_at_recent_date_gdf) \<in> set (active_boxes nan_at_recent_date_gdf)
   \<and> geometry (last nan_at_recent_date_gdf) \<in> set (inactive_boxes nan_at_recent_date_gdf)"
  using active_and_inactive_overlap [of "(7.684190, 51.929340)" nan_at_recent_date_gdf
      "last nan_at_recent_date_gdf"]
  by (simp add: nan_at_recent_date_gdf_def recent_date_def valid_def)

end
